theory Spec2Isabelle
  imports Main
begin

section \<open>ghb0t: deleting the head branch of merged pull requests\<close>

text \<open>
  A shallow embedding of \<^verbatim>\<open>main.go\<close>. The GitHub client, the clock and the JSON decoder are
  libraries outside the repository, so they are parameters of the model: an environment of
  functions over an abstract world \<open>'w\<close> (the state of GitHub as seen through the client).
  Every call made through the client is appended to a trace, so that statements about which
  calls are issued can be made. A nil pointer dereference is the outcome \<open>Panic\<close>, naming
  the expression dereferenced; \<^verbatim>\<open>logrus.Fatal\<close> is the outcome \<open>Exit 1\<close>.
\<close>

subsection \<open>Data of the go-github library, as far as the program reads it\<close>

text \<open>Pointer fields are options: \<open>None\<close> is the nil pointer.\<close>

record user =
  Login :: "string option"

record repository =
  Owner :: "user option"
  Name :: "string option"
  FullName :: "string option"

record pull_request_branch =
  Ref :: "string option"
  Repo :: "repository option"

record pull_request =
  State :: "string option"
  Merged :: "bool option"
  Head :: "pull_request_branch option"
  Number :: "int option"

record notification_subject =
  Type :: "string option"
  URL :: "string option"

record notification =
  Subject :: "notification_subject option"
  Repository :: "repository option"

text \<open>\<^verbatim>\<open>time.Time\<close> as nanoseconds since the zero instant; \<^verbatim>\<open>IsZero\<close> holds of the zero value.\<close>

type_synonym time = int

definition IsZero :: "time \<Rightarrow> bool" where
  "IsZero t = (t = 0)"

record notification_list_options =
  All :: bool
  Since :: time
  Page :: int
  PerPage :: int

record response =
  NextPage :: int
  LastPage :: int

text \<open>The webhook payload, \<^verbatim>\<open>type event struct\<close>.\<close>

record event =
  PullRequest :: "pull_request option"
  evt_Repository :: "repository option"
  evt_Number :: int
  Action :: string

subsection \<open>Errors, outcomes, the trace and the log\<close>

text \<open>
  A Go \<^verbatim>\<open>error\<close> is observed by the program only through nil-ness and \<^verbatim>\<open>err.Error()\<close>.
  An error of the client is its message; \<^verbatim>\<open>strconv.Atoi\<close> fails with a syntax or a range
  error on its argument.
\<close>

datatype error = Gateway string | ErrSyntax string | ErrRange string

datatype 'a outcome = Return 'a | Panic string | Exit int

datatype call =
  ListNotifications notification_list_options
  | PullRequestsGet string string int
  | GitDeleteRef string string string

datatype level = InfoLevel | WarnLevel | ErrorLevel | FatalLevel

text \<open>A log line is its level, its format and the arguments formatted into it.\<close>

datatype log_line =
  BranchNoLongerExists string string string
  | SkippingNotClosed int string string
  | SkippingNonPR event
  | FailedToClose int string error
  | FailedToReadBody
  | Warned error

record 'w env =
  Activity_ListNotifications ::
    "notification_list_options \<Rightarrow> 'w \<Rightarrow> (string + notification list \<times> response) \<times> 'w"
  PullRequests_Get :: "string \<Rightarrow> string \<Rightarrow> int \<Rightarrow> 'w \<Rightarrow> (string + pull_request) \<times> 'w"
  Git_DeleteRef :: "string \<Rightarrow> string \<Rightarrow> string \<Rightarrow> 'w \<Rightarrow> string option \<times> 'w"
  time_Now :: "'w \<Rightarrow> time"

text \<open>
  The state of the process: the world behind the client, the package variable
  \<^verbatim>\<open>lastChecked\<close>, the trace of client calls (oldest first) and the log (oldest first).
\<close>

record 'w state =
  world :: 'w
  lastChecked :: time
  calls :: "call list"
  logs :: "(level \<times> log_line) list"

definition logrus :: "level \<Rightarrow> log_line \<Rightarrow> 'w state \<Rightarrow> 'w state" where
  "logrus lv l st = st\<lparr>logs := logs st @ [(lv, l)]\<rparr>"

subsection \<open>The functions of package strings and strconv that the program calls\<close>

text \<open>\<^verbatim>\<open>strings.Contains(s, substr)\<close>: \<open>substr\<close> occurs in \<open>s\<close>.\<close>

fun strings_Contains :: "string \<Rightarrow> string \<Rightarrow> bool" where
  "strings_Contains [] substr = (substr = [])"
| "strings_Contains (c # cs) substr =
     (take (length substr) (c # cs) = substr \<or> strings_Contains cs substr)"

text \<open>
  \<^verbatim>\<open>strings.Replace(s, old, new, -1)\<close> for a non-empty \<open>old\<close>: every non-overlapping
  occurrence, from the left. The program calls it with \<open>old = "#"\<close> only; Go's result for
  the empty \<open>old\<close> (insertion between UTF-8 sequences) is not modelled.
\<close>

function strings_Replace :: "string \<Rightarrow> string \<Rightarrow> string \<Rightarrow> string" where
  "strings_Replace s old new =
     (if s = [] \<or> old = [] then s
      else if take (length old) s = old then new @ strings_Replace (drop (length old) s) old new
      else hd s # strings_Replace (tl s) old new)"
  by pat_completeness auto
termination
  by (relation "measure (\<lambda>(s, old, new). length s)") (auto simp: neq_Nil_conv)

text \<open>
  \<^verbatim>\<open>strings.Split(s, sep)\<close> for a non-empty \<open>sep\<close>, with the field being read in \<open>cur\<close>:
  the result has one more element than \<open>s\<close> has non-overlapping occurrences of \<open>sep\<close>, so
  it is never empty. The program calls it with \<open>sep = "/"\<close> only.
\<close>

function split_from :: "string \<Rightarrow> string \<Rightarrow> string \<Rightarrow> string list" where
  "split_from cur s sep =
     (if s = [] then [cur]
      else if sep \<noteq> [] \<and> take (length sep) s = sep
        then cur # split_from [] (drop (length sep) s) sep
      else split_from (cur @ [hd s]) (tl s) sep)"
  by pat_completeness auto
termination
  by (relation "measure (\<lambda>(cur, s, sep). length s)") (auto simp: neq_Nil_conv)

definition strings_Split :: "string \<Rightarrow> string \<Rightarrow> string list" where
  "strings_Split s sep = split_from [] s sep"

text \<open>
  \<^verbatim>\<open>strconv.Atoi\<close> for the 64-bit \<^verbatim>\<open>int\<close>: an optional sign, then at least one byte. The
  bytes are read from the left by \<^verbatim>\<open>ParseUint\<close>: a byte that is not a decimal digit is a
  syntax error, a value that leaves the unsigned 64-bit range is a range error, and the
  first of the two that is met is returned. The value read must then fit the signed range.
  The error carries the string as it was passed.
\<close>

definition is_digit :: "char \<Rightarrow> bool" where
  "is_digit c = (48 \<le> (of_char c :: nat) \<and> (of_char c :: nat) \<le> 57)"

fun ParseUint :: "string \<Rightarrow> int \<Rightarrow> string \<Rightarrow> error + int" where
  "ParseUint s0 n [] = Inr n"
| "ParseUint s0 n (c # cs) =
     (if \<not> is_digit c then Inl (ErrSyntax s0)
      else if (2 ^ 64 - 1) div 10 + 1 \<le> n then Inl (ErrRange s0)
      else if 2 ^ 64 - 1 < n * 10 + (of_char c - 48) then Inl (ErrRange s0)
      else ParseUint s0 (n * 10 + (of_char c - 48)) cs)"

definition Atoi :: "string \<Rightarrow> error + int" where
  "Atoi s =
     (if s = [] then Inl (ErrSyntax s)
      else
        (let neg = (hd s = CHR ''-'');
             ds = (if hd s = CHR ''+'' \<or> hd s = CHR ''-'' then tl s else s)
         in if ds = [] then Inl (ErrSyntax s)
            else
              (case ParseUint s 0 ds of
                 Inl e \<Rightarrow> Inl e
               | Inr un \<Rightarrow>
                   if \<not> neg \<and> 2 ^ 63 \<le> un then Inl (ErrRange s)
                   else if neg \<and> 2 ^ 63 < un then Inl (ErrRange s)
                   else Inr (if neg then - un else un))))"

subsection \<open>closePR\<close>

text \<open>
  The dereferences of \<^verbatim>\<open>closePR\<close> in the order the code makes them. The arguments of
  \<^verbatim>\<open>DeleteRef\<close> are evaluated before the call, so a nil \<^verbatim>\<open>Name\<close> panics with no call made.
\<close>

definition closePR ::
  "'w env \<Rightarrow> string \<Rightarrow> pull_request \<Rightarrow> 'w state \<Rightarrow> error option outcome \<times> 'w state" where
  "closePR client username pr st =
     (case State pr of
        None \<Rightarrow> (Panic ''*pr.State'', st)
      | Some state \<Rightarrow>
          if state \<noteq> ''closed'' then (Return None, st)
          else (case Merged pr of
            None \<Rightarrow> (Panic ''*pr.Merged'', st)
          | Some merged \<Rightarrow>
              if \<not> merged then (Return None, st)
              else (case Head pr of
                None \<Rightarrow> (Panic ''pr.Head'', st)
              | Some head \<Rightarrow>
                  (case Ref head of
                    None \<Rightarrow> (Panic ''*pr.Head.Ref'', st)
                  | Some branch \<Rightarrow>
                      (case Repo head of
                        None \<Rightarrow> (Return None, st)
                      | Some repo \<Rightarrow>
                          (case Owner repo of
                            None \<Rightarrow> (Return None, st)
                          | Some own \<Rightarrow>
                              (case Login own of
                                None \<Rightarrow> (Panic ''*pr.Head.Repo.Owner.Login'', st)
                              | Some owner \<Rightarrow>
                                  if owner = username \<and> branch \<noteq> ''master'' then
                                    (case Name repo of
                                      None \<Rightarrow> (Panic ''*pr.Head.Repo.Name'', st)
                                    | Some name \<Rightarrow>
                                        (let ref = strings_Replace (''heads/'' @ branch) ''#'' ''%23'';
                                             (err, w) = Git_DeleteRef client username name ref (world st);
                                             st' = st\<lparr>world := w,
                                                      calls := calls st @ [GitDeleteRef username name ref]\<rparr>
                                         in case err of
                                              None \<Rightarrow>
                                                (Return None,
                                                 logrus InfoLevel (BranchNoLongerExists branch owner name) st')
                                            | Some e \<Rightarrow>
                                                if \<not> strings_Contains e '' 422 ''
                                                then (Return (Some (Gateway e)), st')
                                                else (Return None,
                                                      logrus InfoLevel
                                                        (BranchNoLongerExists branch owner name) st')))
                                  else (Return None, st))))))))"

subsection \<open>The poller: handleNotification, getNotifications, notifier\<close>

text \<open>
  \<^verbatim>\<open>parts[len(parts)-1]\<close> panics on an empty slice; \<^verbatim>\<open>strings.Split\<close> never returns one
  for the separator used, and the model keeps the branch.
\<close>

definition handleNotification ::
  "'w env \<Rightarrow> notification \<Rightarrow> string \<Rightarrow> 'w state \<Rightarrow> error option outcome \<times> 'w state" where
  "handleNotification client notification username st =
     (case Subject notification of
        None \<Rightarrow> (Panic ''notification.Subject'', st)
      | Some subj \<Rightarrow>
          (case Type subj of
            None \<Rightarrow> (Panic ''*notification.Subject.Type'', st)
          | Some ty \<Rightarrow>
              if ty = ''PullRequest'' then
                (case URL subj of
                  None \<Rightarrow> (Panic ''*notification.Subject.URL'', st)
                | Some url \<Rightarrow>
                    (let parts = strings_Split url ''/'' in
                     if parts = [] then (Panic ''parts[len(parts)-1]'', st)
                     else
                       (case Atoi (parts ! (length parts - 1)) of
                         Inl err \<Rightarrow> (Return (Some err), st)
                       | Inr idn \<Rightarrow>
                           (case Repository notification of
                             None \<Rightarrow> (Panic ''notification.Repository'', st)
                           | Some repo \<Rightarrow>
                               (case Owner repo of
                                 None \<Rightarrow> (Panic ''notification.Repository.Owner'', st)
                               | Some own \<Rightarrow>
                                   (case Login own of
                                     None \<Rightarrow> (Panic ''*notification.Repository.Owner.Login'', st)
                                   | Some login \<Rightarrow>
                                       (case Name repo of
                                         None \<Rightarrow> (Panic ''*notification.Repository.Name'', st)
                                       | Some name \<Rightarrow>
                                           (let (r, w) = PullRequests_Get client login name idn (world st);
                                                st' = st\<lparr>world := w,
                                                         calls := calls st @ [PullRequestsGet login name idn]\<rparr>
                                            in case r of
                                                 Inl e \<Rightarrow> (Return (Some (Gateway e)), st')
                                               | Inr pr \<Rightarrow> closePR client username pr st'))))))))
              else (Return None, st)))"

text \<open>
  The \<^verbatim>\<open>for _, notification := range notifications\<close> loop of \<^verbatim>\<open>getNotifications\<close>: it
  returns at the first notification that is not handled with a nil error.
\<close>

fun handleNotifications ::
  "'w env \<Rightarrow> string \<Rightarrow> notification list \<Rightarrow> 'w state \<Rightarrow> error option outcome \<times> 'w state" where
  "handleNotifications client username [] st = (Return None, st)"
| "handleNotifications client username (notification # rest) st =
     (case handleNotification client notification username st of
        (Return None, st') \<Rightarrow> handleNotifications client username rest st'
      | (out, st') \<Rightarrow> (out, st'))"

text \<open>
  \<^verbatim>\<open>getNotifications\<close> calls itself for the next page for as long as the responses name one,
  so it need not return: \<open>None\<close> is the run that never returns. The options are built from
  \<^verbatim>\<open>lastChecked\<close> before \<^verbatim>\<open>lastChecked\<close> is set, as in the source.
\<close>

partial_function (option) getNotifications ::
  "'w env \<Rightarrow> string \<Rightarrow> int \<Rightarrow> int \<Rightarrow> 'w state \<Rightarrow> (error option outcome \<times> 'w state) option" where
  "getNotifications client username page perPage st =
     (let opt = \<lparr>All = True, Since = lastChecked st, Page = page, PerPage = perPage\<rparr>;
          st1 = (if IsZero (lastChecked st) then st\<lparr>lastChecked := time_Now client (world st)\<rparr>
                 else st);
          lr = Activity_ListNotifications client opt (world st1);
          st2 = st1\<lparr>world := snd lr, calls := calls st1 @ [ListNotifications opt]\<rparr>
      in case fst lr of
           Inl e \<Rightarrow> Some (Return (Some (Gateway e)), st2)
         | Inr nr \<Rightarrow>
             (let hr = handleNotifications client username (fst nr) st2 in
              if fst hr = Return None then
                if page = LastPage (snd nr) \<or> NextPage (snd nr) = 0 then Some (Return None, snd hr)
                else getNotifications client username (NextPage (snd nr)) perPage (snd hr)
              else Some hr))"

declare getNotifications.simps [code]


subsection \<open>The webhook receiver\<close>

text \<open>
  The handler built by \<^verbatim>\<open>buildHandler\<close>, on the result of \<^verbatim>\<open>ioutil.ReadAll(req.Body)\<close>;
  \<^verbatim>\<open>json.Unmarshal\<close> into an \<^verbatim>\<open>event\<close> is the parameter \<open>unmarshal\<close>. \<^verbatim>\<open>logrus.Fatal\<close> logs
  and exits with status 1. The arguments of a log call are evaluated before it, left to
  right, so a nil among them panics and nothing is logged.
\<close>

definition buildHandler ::
  "'w env \<Rightarrow> (string \<Rightarrow> string + event) \<Rightarrow> string \<Rightarrow> string + string \<Rightarrow> 'w state
     \<Rightarrow> unit outcome \<times> 'w state" where
  "buildHandler client unmarshal username body st =
     (case body of
        Inl e \<Rightarrow> (Exit 1, logrus FatalLevel FailedToReadBody st)
      | Inr b \<Rightarrow>
          (case unmarshal b of
            Inl e \<Rightarrow> (Exit 1, logrus FatalLevel FailedToReadBody st)
          | Inr evt \<Rightarrow>
              (case PullRequest evt of
                None \<Rightarrow> (Return (), logrus InfoLevel (SkippingNonPR evt) st)
              | Some pr \<Rightarrow>
                  if Action evt = ''closed'' then
                    (case closePR client username pr st of
                      (Return None, st') \<Rightarrow> (Return (), st')
                    | (Return (Some err), st') \<Rightarrow>
                        (case Number pr of
                          None \<Rightarrow> (Panic ''*evt.PullRequest.Number'', st')
                        | Some n \<Rightarrow>
                            (case evt_Repository evt of
                              None \<Rightarrow> (Panic ''evt.Repository'', st')
                            | Some repo \<Rightarrow>
                                (case FullName repo of
                                  None \<Rightarrow> (Panic ''*evt.Repository.FullName'', st')
                                | Some full \<Rightarrow>
                                    (Return (), logrus ErrorLevel (FailedToClose n full err) st'))))
                    | (Panic p, st') \<Rightarrow> (Panic p, st')
                    | (Exit c, st') \<Rightarrow> (Exit c, st'))
                  else
                    (case Number pr of
                      None \<Rightarrow> (Panic ''*evt.PullRequest.Number'', st)
                    | Some n \<Rightarrow>
                        (case evt_Repository evt of
                          None \<Rightarrow> (Panic ''evt.Repository'', st)
                        | Some repo \<Rightarrow>
                            (case FullName repo of
                              None \<Rightarrow> (Panic ''*evt.Repository.FullName'', st)
                            | Some full \<Rightarrow>
                                (Return (),
                                 logrus InfoLevel (SkippingNotClosed n full (Action evt)) st)))))))"

subsection \<open>Reading the trace\<close>

text \<open>
  The pages listed, the pull requests fetched and the refs whose deletion was asked, in the
  order of the calls.
\<close>

fun listed_page :: "call \<Rightarrow> int option" where
  "listed_page (ListNotifications opt) = Some (Page opt)"
| "listed_page c = None"

fun resolved_pull :: "call \<Rightarrow> (string \<times> string \<times> int) option" where
  "resolved_pull (PullRequestsGet owner repo n) = Some (owner, repo, n)"
| "resolved_pull c = None"

definition pages_listed :: "call list \<Rightarrow> int list" where
  "pages_listed tr = List.map_filter listed_page tr"

definition pulls_resolved :: "call list \<Rightarrow> (string \<times> string \<times> int) list" where
  "pulls_resolved tr = List.map_filter resolved_pull tr"

fun deleted_ref :: "call \<Rightarrow> (string \<times> string \<times> string) option" where
  "deleted_ref (GitDeleteRef owner repo ref) = Some (owner, repo, ref)"
| "deleted_ref c = None"

definition refs_deleted :: "call list \<Rightarrow> (string \<times> string \<times> string) list" where
  "refs_deleted tr = List.map_filter deleted_ref tr"

subsection \<open>The draining step in the words of the specification\<close>

text \<open>
  What the specification has the poller do with one page that holds one pull-request
  notification: request the page of notifications since the watermark (setting the
  watermark first if it is unset), fetch the pull request \<open>idn\<close> of \<open>login/name\<close>, and pass
  the pull request \<open>pr\<close> to the decision, \<^verbatim>\<open>closePR\<close>. The state is the one these three
  steps leave. \<^verbatim>\<open>getNotifications\<close> is compared with it below.
\<close>

definition drain_page ::
  "'w env \<Rightarrow> string \<Rightarrow> int \<Rightarrow> int \<Rightarrow> string \<Rightarrow> string \<Rightarrow> int \<Rightarrow> pull_request \<Rightarrow> 'w state
     \<Rightarrow> 'w state" where
  "drain_page client username perPage page login name idn pr st =
     (let opt = \<lparr>All = True, Since = lastChecked st, Page = page, PerPage = perPage\<rparr>;
          st1 = (if IsZero (lastChecked st) then st\<lparr>lastChecked := time_Now client (world st)\<rparr>
                 else st);
          st2 = st1\<lparr>world := snd (Activity_ListNotifications client opt (world st1)),
                    calls := calls st1 @ [ListNotifications opt]\<rparr>;
          st3 = st2\<lparr>world := snd (PullRequests_Get client login name idn (world st2)),
                    calls := calls st2 @ [PullRequestsGet login name idn]\<rparr>
      in snd (closePR client username pr st3))"

subsection \<open>Example inputs\<close>

text \<open>
  A pull request that is closed and merged, from the branch \<open>branch\<close> of the repository
  \<open>owner/name\<close>; a pull request whose head has neither a branch name nor a repository; a
  client over the list of refs that exist, whose \<^verbatim>\<open>DeleteRef\<close> answers as GitHub does for
  a ref that is not there.
\<close>

definition example_pr :: "string \<Rightarrow> string \<Rightarrow> string \<Rightarrow> pull_request" where
  "example_pr owner name branch =
     \<lparr>State = Some ''closed'', Merged = Some True,
      Head = Some \<lparr>Ref = Some branch,
                   Repo = Some \<lparr>Owner = Some \<lparr>Login = Some owner\<rparr>, Name = Some name,
                                FullName = Some (owner @ ''/'' @ name)\<rparr>\<rparr>,
      Number = Some 42\<rparr>"

definition example_refless_pr :: pull_request where
  "example_refless_pr =
     \<lparr>State = Some ''closed'', Merged = Some True,
      Head = Some \<lparr>Ref = None, Repo = None\<rparr>, Number = Some 42\<rparr>"

definition example_client :: "(string \<times> string \<times> string) list env" where
  "example_client =
     \<lparr>Activity_ListNotifications = (\<lambda>opt w. (Inr ([], \<lparr>NextPage = 0, LastPage = 0\<rparr>), w)),
      PullRequests_Get = (\<lambda>owner repo n w. (Inl ''404 Not Found'', w)),
      Git_DeleteRef = (\<lambda>owner repo ref w.
         if (owner, repo, ref) \<in> set w then (None, removeAll (owner, repo, ref) w)
         else (Some ''DELETE /repos/bot/repo/git/refs: 422 Reference does not exist []'', w)),
      time_Now = (\<lambda>w. 1000)\<rparr>"

definition example_state :: "'w \<Rightarrow> 'w state" where
  "example_state w = \<lparr>world = w, lastChecked = 0, calls = [], logs = []\<rparr>"

text \<open>
  A notification on pull request \<open>n\<close> of \<open>up/proj\<close>; a feed of two pages with one such
  notification each; a feed whose first notification is on a pull request that is gone.
\<close>

definition example_notification :: "string \<Rightarrow> notification" where
  "example_notification n =
     \<lparr>Subject = Some \<lparr>Type = Some ''PullRequest'',
                      URL = Some (''https://api.github.com/repos/up/proj/pulls/'' @ n)\<rparr>,
      Repository = Some \<lparr>Owner = Some \<lparr>Login = Some ''up''\<rparr>, Name = Some ''proj'',
                         FullName = Some ''up/proj''\<rparr>\<rparr>"

definition feed_client :: "(string \<times> string \<times> string) list env" where
  "feed_client = example_client
     \<lparr>Activity_ListNotifications := (\<lambda>opt w.
        if Page opt = 1 then (Inr ([example_notification ''7''], \<lparr>NextPage = 2, LastPage = 2\<rparr>), w)
        else (Inr ([example_notification ''8''], \<lparr>NextPage = 0, LastPage = 0\<rparr>), w)),
      PullRequests_Get := (\<lambda>owner repo n w.
        if n = 7 then (Inr (example_pr ''bot'' ''proj'' ''feature-x''), w)
        else (Inr (example_pr ''bot'' ''proj'' ''fix#1''), w))\<rparr>"



text \<open>
  Webhook events: a pull request event of \<open>up/proj\<close> with the given action; the event that
  \<^verbatim>\<open>{"action":"opened","pull_request":{"number":42}}\<close> decodes to, with no repository; a
  decoder that knows these by name and rejects every other body.
\<close>

definition example_event :: "string \<Rightarrow> event" where
  "example_event action =
     \<lparr>PullRequest = Some (example_pr ''bot'' ''repo'' ''feature-x''),
      evt_Repository = Some \<lparr>Owner = Some \<lparr>Login = Some ''up''\<rparr>, Name = Some ''proj'',
                             FullName = Some ''up/proj''\<rparr>,
      evt_Number = 42, Action = action\<rparr>"

definition example_bare_event :: event where
  "example_bare_event =
     \<lparr>PullRequest = Some \<lparr>State = None, Merged = None, Head = None, Number = Some 42\<rparr>,
      evt_Repository = None, evt_Number = 0, Action = ''opened''\<rparr>"

definition example_unmarshal :: "string \<Rightarrow> string + event" where
  "example_unmarshal b =
     (if b = ''closed event'' then Inr (example_event ''closed'')
      else if b = ''opened event'' then Inr (example_event ''opened'')
      else if b = ''bare opened event'' then Inr example_bare_event
      else if b = ''push event'' then Inr ((example_event '''')\<lparr>PullRequest := None\<rparr>)
      else Inl ''invalid character'')"

section \<open>Properties\<close>

declare strings_Replace.simps [simp del]
declare split_from.simps [simp del]

subsection \<open>Replacing a single byte\<close>

lemma strings_Replace_byte:
  "strings_Replace s [c] new = concat (map (\<lambda>x. if x = c then new else [x]) s)"
proof (induction s)
  case Nil
  show ?case by (simp add: strings_Replace.simps)
next
  case (Cons x xs)
  show ?case
    by (subst strings_Replace.simps) (simp add: Cons.IH)
qed

lemma strings_Replace_absent:
  "c \<notin> set s \<Longrightarrow> strings_Replace s [c] new = s"
  by (induction s) (auto simp: strings_Replace_byte)

subsection \<open>The decision: closePR\<close>

text \<open>
  Claim C1, as amended. For a pull request that is closed and merged, whose head repository
  is present with a name, is owned by the bot's login, and whose head branch is not
  \<open>master\<close>, \<^verbatim>\<open>closePR\<close> makes exactly one client call: \<^verbatim>\<open>DeleteRef\<close> with the bot's login,
  the name of the head repository, and the ref \<open>heads/\<close> followed by the branch name in
  which every \<open>#\<close> is replaced by \<open>%23\<close>. For a branch name without \<open>#\<close> that ref is
  \<open>heads/\<close> followed by the branch name.
\<close>

theorem closePR_deletes_once:
  assumes "State pr = Some ''closed''" and "Merged pr = Some True"
    and "Head pr = Some head" and "Ref head = Some branch" and "Repo head = Some repo"
    and "Owner repo = Some own" and "Login own = Some username" and "Name repo = Some name"
    and "branch \<noteq> ''master''"
  shows "calls (snd (closePR client username pr st)) =
           calls st @ [GitDeleteRef username name (strings_Replace (''heads/'' @ branch) ''#'' ''%23'')]
         \<and> (CHR ''#'' \<notin> set branch \<longrightarrow>
              calls (snd (closePR client username pr st)) =
                calls st @ [GitDeleteRef username name (''heads/'' @ branch)])"
proof -
  have one: "calls (snd (closePR client username pr st)) =
           calls st @ [GitDeleteRef username name (strings_Replace (''heads/'' @ branch) ''#'' ''%23'')]"
    using assms
    by (simp add: closePR_def Let_def logrus_def split: prod.splits option.splits)
  have "strings_Replace (''heads/'' @ branch) ''#'' ''%23'' = ''heads/'' @ branch"
    if "CHR ''#'' \<notin> set branch"
    using that by (intro strings_Replace_absent) simp
  with one show ?thesis by simp
qed

theorem closePR_deletes_once_witness:
  "calls (snd (closePR example_client ''bot'' (example_pr ''bot'' ''repo'' ''feature-x'')
        (example_state [(''bot'', ''repo'', ''heads/feature-x'')])))
     = [GitDeleteRef ''bot'' ''repo'' ''heads/feature-x'']"
  using closePR_deletes_once [of "example_pr ''bot'' ''repo'' ''feature-x''"
      "\<lparr>Ref = Some ''feature-x'',
        Repo = Some \<lparr>Owner = Some \<lparr>Login = Some ''bot''\<rparr>, Name = Some ''repo'',
                     FullName = Some ''bot/repo''\<rparr>\<rparr>"
      "''feature-x''"
      "\<lparr>Owner = Some \<lparr>Login = Some ''bot''\<rparr>, Name = Some ''repo'', FullName = Some ''bot/repo''\<rparr>"
      "\<lparr>Login = Some ''bot''\<rparr>" "''bot''" "''repo''" example_client
      "example_state [(''bot'', ''repo'', ''heads/feature-x'')]"]
  by (simp add: example_pr_def example_state_def strings_Replace_byte)

text \<open>
  Claim C1 as stated says the ref is \<open>heads/\<close> followed by the branch name. For the
  branch \<open>fix#1\<close> the call is made with \<open>heads/fix%231\<close>.
\<close>

theorem closePR_ref_counterexample:
  "calls (snd (closePR example_client ''bot'' (example_pr ''bot'' ''repo'' ''fix#1'')
        (example_state [(''bot'', ''repo'', ''heads/fix%231'')])))
     = [GitDeleteRef ''bot'' ''repo'' ''heads/fix%231'']
   \<and> ''heads/fix%231'' \<noteq> ''heads/'' @ ''fix#1''"
  by (simp add: closePR_def example_pr_def example_client_def example_state_def Let_def logrus_def
      strings_Replace_byte)

text \<open>
  Claim C2. For a pull request whose head branch is \<open>master\<close>, whatever its state, merge
  flag and owner, \<^verbatim>\<open>closePR\<close> makes no client call and leaves the world as it was.
\<close>

theorem closePR_never_deletes_master:
  assumes "Head pr = Some head" and "Ref head = Some ''master''"
  shows "calls (snd (closePR client username pr st)) = calls st
         \<and> world (snd (closePR client username pr st)) = world st"
  using assms by (simp add: closePR_def split: option.splits)

theorem closePR_never_deletes_master_witness:
  "calls (snd (closePR example_client ''bot'' (example_pr ''bot'' ''repo'' ''master'')
        (example_state [(''bot'', ''repo'', ''heads/master'')]))) = []
   \<and> world (snd (closePR example_client ''bot'' (example_pr ''bot'' ''repo'' ''master'')
        (example_state [(''bot'', ''repo'', ''heads/master'')]))) = [(''bot'', ''repo'', ''heads/master'')]"
  using closePR_never_deletes_master [of "example_pr ''bot'' ''repo'' ''master''"
      "\<lparr>Ref = Some ''master'',
        Repo = Some \<lparr>Owner = Some \<lparr>Login = Some ''bot''\<rparr>, Name = Some ''repo'',
                     FullName = Some ''bot/repo''\<rparr>\<rparr>"
      example_client "''bot''" "example_state [(''bot'', ''repo'', ''heads/master'')]"]
  by (simp add: example_pr_def example_state_def)

text \<open>
  Claim C3. For a pull request whose head repository has an owner whose login is not the
  bot's login, whatever its state and merge flag, \<^verbatim>\<open>closePR\<close> makes no client call and
  leaves the world as it was.
\<close>

theorem closePR_never_deletes_foreign:
  assumes "Head pr = Some head" and "Repo head = Some repo" and "Owner repo = Some own"
    and "Login own \<noteq> Some username"
  shows "calls (snd (closePR client username pr st)) = calls st
         \<and> world (snd (closePR client username pr st)) = world st"
  using assms by (simp add: closePR_def split: option.splits)

theorem closePR_never_deletes_foreign_witness:
  "calls (snd (closePR example_client ''bot'' (example_pr ''alice'' ''repo'' ''feature-x'')
        (example_state [(''alice'', ''repo'', ''heads/feature-x'')]))) = []
   \<and> world (snd (closePR example_client ''bot'' (example_pr ''alice'' ''repo'' ''feature-x'')
        (example_state [(''alice'', ''repo'', ''heads/feature-x'')])))
       = [(''alice'', ''repo'', ''heads/feature-x'')]"
  using closePR_never_deletes_foreign [of "example_pr ''alice'' ''repo'' ''feature-x''"
      "\<lparr>Ref = Some ''feature-x'',
        Repo = Some \<lparr>Owner = Some \<lparr>Login = Some ''alice''\<rparr>, Name = Some ''repo'',
                     FullName = Some ''alice/repo''\<rparr>\<rparr>"
      "\<lparr>Owner = Some \<lparr>Login = Some ''alice''\<rparr>, Name = Some ''repo'', FullName = Some ''alice/repo''\<rparr>"
      "\<lparr>Login = Some ''alice''\<rparr>" "''bot''" example_client
      "example_state [(''alice'', ''repo'', ''heads/feature-x'')]"]
  by (simp add: example_pr_def example_state_def)

text \<open>
  Claim C4, as amended. For a pull request whose state is present and either is not
  \<open>closed\<close> or comes with a merge flag that is false, \<^verbatim>\<open>closePR\<close> returns nil and changes
  nothing: no call, no log line. It does the same when the head repository is absent,
  provided the state is present (and the merge flag too, when the state is \<open>closed\<close>) and
  the head and its branch name are present.
\<close>

theorem closePR_skips:
  "(State pr = Some s \<and> (s \<noteq> ''closed'' \<or> Merged pr = Some False)
      \<longrightarrow> closePR client username pr st = (Return None, st))
   \<and> (State pr = Some s \<and> (s = ''closed'' \<longrightarrow> Merged pr \<noteq> None)
        \<and> Head pr = Some head \<and> Ref head \<noteq> None \<and> Repo head = None
      \<longrightarrow> closePR client username pr st = (Return None, st))"
  by (auto simp add: closePR_def split: option.splits)

theorem closePR_skips_witness:
  "closePR example_client ''bot'' ((example_pr ''bot'' ''repo'' ''feature-x'')\<lparr>Merged := Some False\<rparr>)
      (example_state [(''bot'', ''repo'', ''heads/feature-x'')])
     = (Return None, example_state [(''bot'', ''repo'', ''heads/feature-x'')])
   \<and> closePR example_client ''bot''
        (example_refless_pr\<lparr>Head := Some \<lparr>Ref = Some ''feature-x'', Repo = None\<rparr>\<rparr>)
        (example_state [(''bot'', ''repo'', ''heads/feature-x'')])
     = (Return None, example_state [(''bot'', ''repo'', ''heads/feature-x'')])"
  using closePR_skips [where pr = "(example_pr ''bot'' ''repo'' ''feature-x'')\<lparr>Merged := Some False\<rparr>"
      and s = "''closed''" and client = example_client and username = "''bot''"
      and st = "example_state [(''bot'', ''repo'', ''heads/feature-x'')]"]
    closePR_skips [where pr = "example_refless_pr\<lparr>Head := Some \<lparr>Ref = Some ''feature-x'', Repo = None\<rparr>\<rparr>"
      and s = "''closed''" and head = "\<lparr>Ref = Some ''feature-x'', Repo = None\<rparr>"
      and client = example_client and username = "''bot''"
      and st = "example_state [(''bot'', ''repo'', ''heads/feature-x'')]"]
  by (simp add: example_pr_def example_refless_pr_def)

text \<open>
  Claim C4 as stated has \<^verbatim>\<open>closePR\<close> skip whenever the head repository is absent. The
  branch name is read first: with the head repository and the branch name both absent on a
  closed and merged pull request, \<^verbatim>\<open>closePR\<close> panics instead of returning nil.
\<close>

theorem closePR_skip_counterexample:
  "Repo (the (Head example_refless_pr)) = None
   \<and> fst (closePR example_client ''bot'' example_refless_pr (example_state [])) = Panic ''*pr.Head.Ref''
   \<and> fst (closePR example_client ''bot'' example_refless_pr (example_state [])) \<noteq> Return None"
  by (simp add: closePR_def example_refless_pr_def)


text \<open>
  Claim C5, as amended. The pull request is one for which \<^verbatim>\<open>closePR\<close> issues the deletion.
  If \<^verbatim>\<open>DeleteRef\<close> returns an error whose message contains the text \<open> 422 \<close> (the status
  with which GitHub answers the deletion of a ref that is not there), \<^verbatim>\<open>closePR\<close> returns
  nil; if it returns an error whose message does not contain that text, \<^verbatim>\<open>closePR\<close> returns
  that error. So \<^verbatim>\<open>closePR\<close> run a second time, on the world the first run left, returns nil
  when its deletion is answered with such a message; the first run returned nil when its
  deletion went through.
\<close>

theorem closePR_delete_errors:
  assumes "State pr = Some ''closed''" and "Merged pr = Some True"
    and "Head pr = Some head" and "Ref head = Some branch" and "Repo head = Some repo"
    and "Owner repo = Some own" and "Login own = Some username" and "Name repo = Some name"
    and "branch \<noteq> ''master''"
    and "ref = strings_Replace (''heads/'' @ branch) ''#'' ''%23''"
  shows "(\<forall>e w. Git_DeleteRef client username name ref (world st) = (Some e, w)
            \<and> strings_Contains e '' 422 ''
          \<longrightarrow> fst (closePR client username pr st) = Return None)
       \<and> (\<forall>e w. Git_DeleteRef client username name ref (world st) = (Some e, w)
            \<and> \<not> strings_Contains e '' 422 ''
          \<longrightarrow> fst (closePR client username pr st) = Return (Some (Gateway e)))
       \<and> (\<forall>r w e w'. Git_DeleteRef client username name ref (world st) = (r, w)
            \<and> Git_DeleteRef client username name ref w = (Some e, w')
            \<and> strings_Contains e '' 422 ''
          \<longrightarrow> fst (closePR client username pr (snd (closePR client username pr st))) = Return None
              \<and> (r = None \<longrightarrow> fst (closePR client username pr st) = Return None))"
proof (intro conjI allI impI)
  fix e w
  assume "Git_DeleteRef client username name ref (world st) = (Some e, w) \<and> strings_Contains e '' 422 ''"
  with assms show "fst (closePR client username pr st) = Return None"
    by (simp add: closePR_def Let_def)
next
  fix e w
  assume "Git_DeleteRef client username name ref (world st) = (Some e, w) \<and> \<not> strings_Contains e '' 422 ''"
  with assms show "fst (closePR client username pr st) = Return (Some (Gateway e))"
    by (simp add: closePR_def Let_def)
next
  fix r w e w'
  assume h: "Git_DeleteRef client username name ref (world st) = (r, w)
      \<and> Git_DeleteRef client username name ref w = (Some e, w')
      \<and> strings_Contains e '' 422 ''"
  with assms have "world (snd (closePR client username pr st)) = w"
    by (auto simp add: closePR_def Let_def logrus_def split: option.splits)
  with h assms
  show "fst (closePR client username pr (snd (closePR client username pr st))) = Return None"
    by (simp add: closePR_def [of client username pr "snd (closePR client username pr st)"] Let_def)
  show "fst (closePR client username pr st) = Return None" if "r = None"
    using that h assms by (simp add: closePR_def Let_def)
qed

theorem closePR_delete_errors_witness:
  "fst (closePR example_client ''bot'' (example_pr ''bot'' ''repo'' ''feature-x'') (example_state []))
     = Return None
   \<and> fst (closePR (example_client\<lparr>Git_DeleteRef := (\<lambda>owner repo ref w. (Some ''DELETE /x: 500 boom []'', w))\<rparr>)
          ''bot'' (example_pr ''bot'' ''repo'' ''feature-x'') (example_state []))
     = Return (Some (Gateway ''DELETE /x: 500 boom []''))
   \<and> fst (closePR example_client ''bot'' (example_pr ''bot'' ''repo'' ''feature-x'')
        (example_state [(''bot'', ''repo'', ''heads/feature-x'')])) = Return None
   \<and> fst (closePR example_client ''bot'' (example_pr ''bot'' ''repo'' ''feature-x'')
        (snd (closePR example_client ''bot'' (example_pr ''bot'' ''repo'' ''feature-x'')
           (example_state [(''bot'', ''repo'', ''heads/feature-x'')])))) = Return None"
  using closePR_delete_errors [where pr = "example_pr ''bot'' ''repo'' ''feature-x''"
      and head = "\<lparr>Ref = Some ''feature-x'',
        Repo = Some \<lparr>Owner = Some \<lparr>Login = Some ''bot''\<rparr>, Name = Some ''repo'',
                     FullName = Some ''bot/repo''\<rparr>\<rparr>"
      and branch = "''feature-x''"
      and repo = "\<lparr>Owner = Some \<lparr>Login = Some ''bot''\<rparr>, Name = Some ''repo'', FullName = Some ''bot/repo''\<rparr>"
      and own = "\<lparr>Login = Some ''bot''\<rparr>" and username = "''bot''" and name = "''repo''"
      and ref = "''heads/feature-x''" and client = example_client
      and st = "example_state []"]
    closePR_delete_errors [where pr = "example_pr ''bot'' ''repo'' ''feature-x''"
      and head = "\<lparr>Ref = Some ''feature-x'',
        Repo = Some \<lparr>Owner = Some \<lparr>Login = Some ''bot''\<rparr>, Name = Some ''repo'',
                     FullName = Some ''bot/repo''\<rparr>\<rparr>"
      and branch = "''feature-x''"
      and repo = "\<lparr>Owner = Some \<lparr>Login = Some ''bot''\<rparr>, Name = Some ''repo'', FullName = Some ''bot/repo''\<rparr>"
      and own = "\<lparr>Login = Some ''bot''\<rparr>" and username = "''bot''" and name = "''repo''"
      and ref = "''heads/feature-x''"
      and client = "example_client\<lparr>Git_DeleteRef := (\<lambda>owner repo ref w. (Some ''DELETE /x: 500 boom []'', w))\<rparr>"
      and st = "example_state []"]
    closePR_delete_errors [where pr = "example_pr ''bot'' ''repo'' ''feature-x''"
      and head = "\<lparr>Ref = Some ''feature-x'',
        Repo = Some \<lparr>Owner = Some \<lparr>Login = Some ''bot''\<rparr>, Name = Some ''repo'',
                     FullName = Some ''bot/repo''\<rparr>\<rparr>"
      and branch = "''feature-x''"
      and repo = "\<lparr>Owner = Some \<lparr>Login = Some ''bot''\<rparr>, Name = Some ''repo'', FullName = Some ''bot/repo''\<rparr>"
      and own = "\<lparr>Login = Some ''bot''\<rparr>" and username = "''bot''" and name = "''repo''"
      and ref = "''heads/feature-x''" and client = example_client
      and st = "example_state [(''bot'', ''repo'', ''heads/feature-x'')]"]
  by (simp add: example_pr_def example_state_def example_client_def strings_Replace_byte)

text \<open>
  Claim C5 as stated has every deletion error other than "the branch does not exist"
  returned, and that answer taken for success. The code reads only the message: a server
  error whose message happens to contain \<open> 422 \<close> is taken for success and logged as "no
  longer exists" although the ref is still there, and an answer \<open>404 Not Found\<close> is returned
  as an error.
\<close>

theorem closePR_not_found_counterexample:
  "closePR
      (example_client\<lparr>Git_DeleteRef := (\<lambda>owner repo ref w.
         (Some ''DELETE /repos/bot/repo/git/refs/heads/feature-x: 500 code 422 seen []'', w))\<rparr>)
      ''bot'' (example_pr ''bot'' ''repo'' ''feature-x'')
      (example_state [(''bot'', ''repo'', ''heads/feature-x'')])
     = (Return None,
        \<lparr>world = [(''bot'', ''repo'', ''heads/feature-x'')], lastChecked = 0,
         calls = [GitDeleteRef ''bot'' ''repo'' ''heads/feature-x''],
         logs = [(InfoLevel, BranchNoLongerExists ''feature-x'' ''bot'' ''repo'')]\<rparr>)
   \<and> fst (closePR
      (example_client\<lparr>Git_DeleteRef := (\<lambda>owner repo ref w.
         (Some ''DELETE /repos/bot/repo/git/refs/heads/feature-x: 404 Not Found []'', w))\<rparr>)
      ''bot'' (example_pr ''bot'' ''repo'' ''feature-x'') (example_state []))
     = Return (Some (Gateway ''DELETE /repos/bot/repo/git/refs/heads/feature-x: 404 Not Found []''))"
  by (simp add: closePR_def example_pr_def example_client_def example_state_def Let_def logrus_def
      strings_Replace_byte)

text \<open>
  Claim C10. On a pull request that is closed and merged, \<^verbatim>\<open>closePR\<close> reads
  \<^verbatim>\<open>*pr.Head.Ref\<close> before it looks at the head repository: with the head or the branch
  name absent it panics there, whatever the head repository is; with both present it does
  not panic there, and with the head repository absent it then returns nil with nothing
  changed.
\<close>

theorem closePR_head_ref_read:
  assumes "State pr = Some ''closed''" and "Merged pr = Some True"
  shows "(Head pr = None \<longrightarrow> closePR client username pr st = (Panic ''pr.Head'', st))
       \<and> (\<forall>head. Head pr = Some head \<and> Ref head = None
            \<longrightarrow> closePR client username pr st = (Panic ''*pr.Head.Ref'', st))
       \<and> (\<forall>head branch. Head pr = Some head \<and> Ref head = Some branch
            \<longrightarrow> fst (closePR client username pr st) \<noteq> Panic ''pr.Head''
                \<and> fst (closePR client username pr st) \<noteq> Panic ''*pr.Head.Ref'')
       \<and> (\<forall>head branch. Head pr = Some head \<and> Ref head = Some branch \<and> Repo head = None
            \<longrightarrow> closePR client username pr st = (Return None, st))"
  using assms
  by (auto simp add: closePR_def Let_def split: option.splits prod.splits)

theorem closePR_head_ref_read_witness:
  "closePR example_client ''bot'' example_refless_pr (example_state []) = (Panic ''*pr.Head.Ref'', example_state [])
   \<and> closePR example_client ''bot'' (example_refless_pr\<lparr>Head := None\<rparr>) (example_state [])
       = (Panic ''pr.Head'', example_state [])
   \<and> closePR example_client ''bot''
        (example_refless_pr\<lparr>Head := Some \<lparr>Ref = Some ''feature-x'', Repo = None\<rparr>\<rparr>) (example_state [])
       = (Return None, example_state [])"
  using closePR_head_ref_read [where pr = example_refless_pr and client = example_client
      and username = "''bot''" and st = "example_state []"]
    closePR_head_ref_read [where pr = "example_refless_pr\<lparr>Head := None\<rparr>" and client = example_client
      and username = "''bot''" and st = "example_state []"]
    closePR_head_ref_read [where pr = "example_refless_pr\<lparr>Head := Some \<lparr>Ref = Some ''feature-x'', Repo = None\<rparr>\<rparr>"
      and client = example_client and username = "''bot''" and st = "example_state []"]
  by (simp add: example_refless_pr_def)


subsection \<open>The poller\<close>

lemma split_from_nonempty: "split_from cur s sep \<noteq> []"
  by (induction cur s sep rule: split_from.induct) (subst split_from.simps, simp)

lemma strings_Split_last:
  "strings_Split s sep ! (length (strings_Split s sep) - Suc 0) = last (strings_Split s sep)"
  by (simp add: strings_Split_def split_from_nonempty last_conv_nth)

lemma strings_Split_nonempty: "strings_Split s sep \<noteq> []"
  by (simp add: strings_Split_def split_from_nonempty)

lemma handleNotification_resolved:
  assumes "Subject n = Some subj" and "Type subj = Some ''PullRequest''" and "URL subj = Some url"
    and "Atoi (last (strings_Split url ''/'')) = Inr idn"
    and "Repository n = Some repo" and "Owner repo = Some own" and "Login own = Some login"
    and "Name repo = Some name"
    and "PullRequests_Get client login name idn (world st) = (r, w)"
  shows "handleNotification client n username st =
           (case r of
              Inl e \<Rightarrow> (Return (Some (Gateway e)),
                        st\<lparr>world := w, calls := calls st @ [PullRequestsGet login name idn]\<rparr>)
            | Inr pr \<Rightarrow> closePR client username pr
                        (st\<lparr>world := w, calls := calls st @ [PullRequestsGet login name idn]\<rparr>))"
  using assms
  by (simp add: handleNotification_def Let_def strings_Split_last strings_Split_nonempty)



lemma map_filter_append: "List.map_filter f (xs @ ys) = List.map_filter f xs @ List.map_filter f ys"
  by (simp add: List.map_filter_def)

lemma pages_listed_append [simp]: "pages_listed (xs @ ys) = pages_listed xs @ pages_listed ys"
  by (simp add: pages_listed_def map_filter_append)

lemma pulls_resolved_append [simp]: "pulls_resolved (xs @ ys) = pulls_resolved xs @ pulls_resolved ys"
  by (simp add: pulls_resolved_def map_filter_append)

lemma getNotifications_page:
  assumes "Activity_ListNotifications client
             \<lparr>All = True, Since = lastChecked st, Page = page, PerPage = perPage\<rparr> (world st)
           = (Inr (ns, resp), w)"
    and "handleNotifications client username ns
           ((if IsZero (lastChecked st) then st\<lparr>lastChecked := time_Now client (world st)\<rparr> else st)
              \<lparr>world := w,
               calls := calls st @ [ListNotifications
                 \<lparr>All = True, Since = lastChecked st, Page = page, PerPage = perPage\<rparr>]\<rparr>)
           = (out, st')"
  shows "getNotifications client username page perPage st =
           (if out = Return None then
              if page = LastPage resp \<or> NextPage resp = 0 then Some (Return None, st')
              else getNotifications client username (NextPage resp) perPage st'
            else Some (out, st'))"
proof -
  let ?st1 = "if IsZero (lastChecked st) then st\<lparr>lastChecked := time_Now client (world st)\<rparr> else st"
  have w1: "world ?st1 = world st" and c1: "calls ?st1 = calls st"
    by simp_all
  show ?thesis
    by (rule trans [OF getNotifications.simps])
      (simp only: Let_def w1 c1 assms fst_conv snd_conv sum.case)
qed

lemma refs_deleted_append [simp]: "refs_deleted (xs @ ys) = refs_deleted xs @ refs_deleted ys"
  by (simp add: refs_deleted_def map_filter_append)

lemma closePR_trace_deleted:
  "\<exists>ds. calls (snd (closePR client username pr st)) = calls st @ ds
         \<and> pages_listed ds = [] \<and> pulls_resolved ds = []
         \<and> (State pr = Some ''closed'' \<and> Merged pr = Some True \<and> Head pr = Some head
              \<and> Ref head = Some branch \<and> Repo head = Some repo \<and> Owner repo = Some own
              \<and> Login own = Some username \<and> Name repo = Some name \<and> branch \<noteq> ''master''
            \<longrightarrow> refs_deleted ds =
                  [(username, name, strings_Replace (''heads/'' @ branch) ''#'' ''%23'')])"
  by (auto simp add: closePR_def Let_def logrus_def pages_listed_def pulls_resolved_def
      refs_deleted_def split: option.splits prod.splits)

lemma drain_page_trace:
  "\<exists>tr. calls (drain_page client username perPage page login name idn pr st) = calls st @ tr
         \<and> pages_listed tr = [page] \<and> pulls_resolved tr = [(login, name, idn)]
         \<and> (State pr = Some ''closed'' \<and> Merged pr = Some True \<and> Head pr = Some head
              \<and> Ref head = Some branch \<and> Repo head = Some repo \<and> Owner repo = Some own
              \<and> Login own = Some username \<and> Name repo = Some hname \<and> branch \<noteq> ''master''
            \<longrightarrow> refs_deleted tr =
                  [(username, hname, strings_Replace (''heads/'' @ branch) ''#'' ''%23'')])"
proof -
  let ?opt = "\<lparr>All = True, Since = lastChecked st, Page = page, PerPage = perPage\<rparr>"
  let ?st1 = "if IsZero (lastChecked st) then st\<lparr>lastChecked := time_Now client (world st)\<rparr> else st"
  let ?st2 = "?st1\<lparr>world := snd (Activity_ListNotifications client ?opt (world ?st1)),
                    calls := calls ?st1 @ [ListNotifications ?opt]\<rparr>"
  let ?st3 = "?st2\<lparr>world := snd (PullRequests_Get client login name idn (world ?st2)),
                    calls := calls ?st2 @ [PullRequestsGet login name idn]\<rparr>"
  have dp: "drain_page client username perPage page login name idn pr st
      = snd (closePR client username pr ?st3)"
    by (simp only: drain_page_def Let_def)
  have c3: "calls ?st3 = calls st @ [ListNotifications ?opt, PullRequestsGet login name idn]"
    by simp
  from closePR_trace_deleted [of client username pr ?st3 head branch repo own hname]
  obtain ds where ds: "calls (snd (closePR client username pr ?st3)) = calls ?st3 @ ds"
    "pages_listed ds = []" "pulls_resolved ds = []"
    "State pr = Some ''closed'' \<and> Merged pr = Some True \<and> Head pr = Some head
              \<and> Ref head = Some branch \<and> Repo head = Some repo \<and> Owner repo = Some own
              \<and> Login own = Some username \<and> Name repo = Some hname \<and> branch \<noteq> ''master''
            \<longrightarrow> refs_deleted ds =
                  [(username, hname, strings_Replace (''heads/'' @ branch) ''#'' ''%23'')]"
    by blast
  let ?tr = "[ListNotifications ?opt, PullRequestsGet login name idn] @ ds"
  have "calls (drain_page client username perPage page login name idn pr st) = calls st @ ?tr"
    unfolding dp ds(1) c3 by simp
  moreover have "pages_listed ?tr = [page]"
    using ds(2) by (simp add: pages_listed_def)
  moreover have "pulls_resolved ?tr = [(login, name, idn)]"
    using ds(3) by (simp add: pulls_resolved_def)
  moreover have "State pr = Some ''closed'' \<and> Merged pr = Some True \<and> Head pr = Some head
              \<and> Ref head = Some branch \<and> Repo head = Some repo \<and> Owner repo = Some own
              \<and> Login own = Some username \<and> Name repo = Some hname \<and> branch \<noteq> ''master''
            \<longrightarrow> refs_deleted ?tr =
                  [(username, hname, strings_Replace (''heads/'' @ branch) ''#'' ''%23'')]"
    using ds(4) by (simp add: refs_deleted_def)
  ultimately show ?thesis by blast
qed

lemma getNotifications_drain_page:
  assumes list: "fst (Activity_ListNotifications client
             \<lparr>All = True, Since = lastChecked st, Page = page, PerPage = perPage\<rparr> (world st))
           = Inr ([n], resp)"
    and subject: "Subject n = Some subj" "Type subj = Some ''PullRequest''" "URL subj = Some url"
      "Atoi (last (strings_Split url ''/'')) = Inr idn"
      "Repository n = Some repo" "Owner repo = Some own" "Login own = Some login"
      "Name repo = Some name"
    and resolves: "\<And>w. fst (PullRequests_Get client login name idn w) = Inr pr"
    and evaluates: "\<And>s. fst (closePR client username pr s) = Return None"
  shows "getNotifications client username page perPage st =
           (if page = LastPage resp \<or> NextPage resp = 0
            then Some (Return None, drain_page client username perPage page login name idn pr st)
            else getNotifications client username (NextPage resp) perPage
                   (drain_page client username perPage page login name idn pr st))"
proof -
  let ?opt = "\<lparr>All = True, Since = lastChecked st, Page = page, PerPage = perPage\<rparr>"
  let ?st1 = "if IsZero (lastChecked st) then st\<lparr>lastChecked := time_Now client (world st)\<rparr> else st"
  have w1: "world ?st1 = world st" and c1: "calls ?st1 = calls st"
    by simp_all
  let ?w = "snd (Activity_ListNotifications client ?opt (world st))"
  let ?st2 = "?st1\<lparr>world := ?w, calls := calls st @ [ListNotifications ?opt]\<rparr>"
  let ?w' = "snd (PullRequests_Get client login name idn (world ?st2))"
  let ?st3 = "?st2\<lparr>world := ?w', calls := calls ?st2 @ [PullRequestsGet login name idn]\<rparr>"
  have dp: "drain_page client username perPage page login name idn pr st
      = snd (closePR client username pr ?st3)"
    by (simp only: drain_page_def Let_def w1 c1)
  have lr: "Activity_ListNotifications client ?opt (world st) = (Inr ([n], resp), ?w)"
    using list by (simp add: prod_eq_iff)
  have gr: "PullRequests_Get client login name idn (world ?st2) = (Inr pr, ?w')"
    using resolves [of "world ?st2"] by (simp add: prod_eq_iff)
  have hn: "handleNotification client n username ?st2 = closePR client username pr ?st3"
    using handleNotification_resolved [OF subject gr, of username] by simp
  obtain st4 where cr: "closePR client username pr ?st3 = (Return None, st4)"
    using evaluates [of ?st3] by (cases "closePR client username pr ?st3") simp
  have "handleNotifications client username [n] ?st2 = (Return None, st4)"
    using hn cr by simp
  moreover have "drain_page client username perPage page login name idn pr st = st4"
    unfolding dp cr by simp
  ultimately have hs: "handleNotifications client username [n] ?st2
      = (Return None, drain_page client username perPage page login name idn pr st)"
    by simp
  show ?thesis
    using getNotifications_page [OF lr hs] by simp
qed

lemma fold_drain_page_trace:
  fixes client :: "'w env" and pr :: "nat \<Rightarrow> pull_request" and head :: "nat \<Rightarrow> pull_request_branch"
    and hrepo :: "nat \<Rightarrow> repository" and howner :: "nat \<Rightarrow> user"
  shows "\<exists>tr. calls (fold (\<lambda>k. drain_page client username perPage (int k) (login k) (name k) (idn k) (pr k))
                  ks st) = calls st @ tr
         \<and> pages_listed tr = map int ks
         \<and> pulls_resolved tr = map (\<lambda>k. (login k, name k, idn k)) ks
         \<and> ((\<forall>k \<in> set ks. State (pr k) = Some ''closed'' \<and> Merged (pr k) = Some True
                \<and> Head (pr k) = Some (head k) \<and> Ref (head k) = Some (branch k)
                \<and> Repo (head k) = Some (hrepo k) \<and> Owner (hrepo k) = Some (howner k)
                \<and> Login (howner k) = Some username \<and> Name (hrepo k) = Some (hname k)
                \<and> branch k \<noteq> ''master'')
              \<longrightarrow> refs_deleted tr =
                    map (\<lambda>k. (username, hname k, strings_Replace (''heads/'' @ branch k) ''#'' ''%23'')) ks)"
proof (induction ks arbitrary: st)
  case Nil
  show ?case by (simp add: pages_listed_def pulls_resolved_def refs_deleted_def)
next
  case (Cons k ks)
  let ?F = "\<lambda>k. drain_page client username perPage (int k) (login k) (name k) (idn k) (pr k)"
  let ?E = "\<lambda>k. State (pr k) = Some ''closed'' \<and> Merged (pr k) = Some True
                \<and> Head (pr k) = Some (head k) \<and> Ref (head k) = Some (branch k)
                \<and> Repo (head k) = Some (hrepo k) \<and> Owner (hrepo k) = Some (howner k)
                \<and> Login (howner k) = Some username \<and> Name (hrepo k) = Some (hname k)
                \<and> branch k \<noteq> ''master''"
  let ?D = "\<lambda>k. (username, hname k, strings_Replace (''heads/'' @ branch k) ''#'' ''%23'')"
  from drain_page_trace [of client username perPage "int k" "login k" "name k" "idn k" "pr k" st
      "head k" "branch k" "hrepo k" "howner k" "hname k"]
  obtain t1 where t1: "calls (?F k st) = calls st @ t1" "pages_listed t1 = [int k]"
    "pulls_resolved t1 = [(login k, name k, idn k)]"
    "?E k \<longrightarrow> refs_deleted t1 = [?D k]"
    by blast
  from Cons.IH [of "?F k st"]
  obtain t2 where t2: "calls (fold ?F ks (?F k st)) = calls (?F k st) @ t2"
    "pages_listed t2 = map int ks"
    "pulls_resolved t2 = map (\<lambda>k. (login k, name k, idn k)) ks"
    "(\<forall>k \<in> set ks. ?E k) \<longrightarrow> refs_deleted t2 = map ?D ks"
    by blast
  have "calls (fold ?F (k # ks) st) = calls st @ (t1 @ t2)"
    using t1(1) t2(1) by simp
  moreover have "pages_listed (t1 @ t2) = map int (k # ks)"
    using t1(2) t2(2) by simp
  moreover have "pulls_resolved (t1 @ t2) = map (\<lambda>k. (login k, name k, idn k)) (k # ks)"
    using t1(3) t2(3) by simp
  moreover have "(\<forall>j \<in> set (k # ks). ?E j) \<longrightarrow> refs_deleted (t1 @ t2) = map ?D (k # ks)"
    using t1(4) t2(4) by simp
  ultimately show ?case by blast
qed

lemma example_url_number:
  "Atoi (last (strings_Split ''https://api.github.com/repos/up/proj/pulls/7'' ''/'')) = Inr 7"
  "Atoi (last (strings_Split ''https://api.github.com/repos/up/proj/pulls/8'' ''/'')) = Inr 8"
  "Atoi (last (strings_Split ''https://api.github.com/repos/up/proj/pulls/99'' ''/'')) = Inr 99"
  by code_simp+

lemma example_client_closePR:
  "fst (closePR (example_client\<lparr>Activity_ListNotifications := l, PullRequests_Get := g\<rparr>) ''bot''
         (example_pr ''bot'' ''proj'' b) s) = Return None"
  by (simp add: closePR_def example_client_def example_pr_def Let_def)

text \<open>
  Claim C7. A feed of \<open>N \<ge> 1\<close> pages: listing page \<open>k\<close> returns the single
  notification \<open>ntf k\<close>; the response to page \<open>k < N\<close> names \<open>k + 1\<close> as the next
  page and is not the last page, the response to page \<open>N\<close> names no next page; each
  notification is of type \<open>PullRequest\<close> with a URL whose last segment is a number and
  with its repository fields present; fetching that pull request succeeds and \<^verbatim>\<open>closePR\<close> on
  it returns nil. Then \<^verbatim>\<open>getNotifications\<close> from page 1 returns nil, and the state it
  leaves is the one reached by doing, for \<open>k = 1, \<dots>, N\<close> in turn, the step \<open>drain_page\<close>:
  list page \<open>k\<close>, fetch pull request \<open>k\<close>, run \<^verbatim>\<open>closePR\<close> on it. So exactly the pages
  \<open>1, \<dots>, N\<close> are listed and exactly the \<open>N\<close> pull requests are fetched, in order, and
  each is evaluated by \<^verbatim>\<open>closePR\<close> once: when every one of them is closed, merged, from a
  repository of the bot and not from \<open>master\<close>, the trace holds exactly \<open>N\<close> deletions, one
  per pull request, in order.
\<close>

theorem getNotifications_drains_feed:
  fixes client :: "'w env" and N :: nat and pr :: "nat \<Rightarrow> pull_request"
    and head :: "nat \<Rightarrow> pull_request_branch"
    and hrepo :: "nat \<Rightarrow> repository" and howner :: "nat \<Rightarrow> user"
  assumes pages: "\<And>k opt w. 1 \<le> k \<Longrightarrow> k \<le> N \<Longrightarrow> Page opt = int k \<Longrightarrow>
             fst (Activity_ListNotifications client opt w) = Inr ([ntf k], resp k)"
    and next_page: "\<And>k. 1 \<le> k \<Longrightarrow> k < N \<Longrightarrow>
             NextPage (resp k) = int (Suc k) \<and> LastPage (resp k) \<noteq> int k"
    and last_page: "NextPage (resp N) = 0"
    and subjects: "\<And>k. 1 \<le> k \<Longrightarrow> k \<le> N \<Longrightarrow>
             Subject (ntf k) = Some (subj k) \<and> Type (subj k) = Some ''PullRequest''
             \<and> URL (subj k) = Some (url k)
             \<and> Atoi (last (strings_Split (url k) ''/'')) = Inr (idn k)
             \<and> Repository (ntf k) = Some (repo k) \<and> Owner (repo k) = Some (own k)
             \<and> Login (own k) = Some (login k) \<and> Name (repo k) = Some (name k)"
    and resolves: "\<And>k w. 1 \<le> k \<Longrightarrow> k \<le> N \<Longrightarrow>
             fst (PullRequests_Get client (login k) (name k) (idn k) w) = Inr (pr k)"
    and evaluates: "\<And>k s. 1 \<le> k \<Longrightarrow> k \<le> N \<Longrightarrow>
             fst (closePR client username (pr k) s) = Return None"
    and "1 \<le> N"
  shows "getNotifications client username 1 perPage st =
           Some (Return None,
             fold (\<lambda>k. drain_page client username perPage (int k) (login k) (name k) (idn k) (pr k))
               [1..<Suc N] st)
       \<and> (\<exists>tr. calls (fold (\<lambda>k. drain_page client username perPage (int k) (login k) (name k)
                            (idn k) (pr k)) [1..<Suc N] st) = calls st @ tr
            \<and> pages_listed tr = map int [1..<Suc N]
            \<and> pulls_resolved tr = map (\<lambda>k. (login k, name k, idn k)) [1..<Suc N]
            \<and> ((\<forall>k \<in> set [1..<Suc N]. State (pr k) = Some ''closed'' \<and> Merged (pr k) = Some True
                   \<and> Head (pr k) = Some (head k) \<and> Ref (head k) = Some (branch k)
                   \<and> Repo (head k) = Some (hrepo k) \<and> Owner (hrepo k) = Some (howner k)
                   \<and> Login (howner k) = Some username \<and> Name (hrepo k) = Some (hname k)
                   \<and> branch k \<noteq> ''master'')
                 \<longrightarrow> refs_deleted tr =
                       map (\<lambda>k. (username, hname k,
                                 strings_Replace (''heads/'' @ branch k) ''#'' ''%23'')) [1..<Suc N]))"
proof
  let ?F = "\<lambda>k. drain_page client username perPage (int k) (login k) (name k) (idn k) (pr k)"
  have step: "getNotifications client username (int k) perPage st
      = Some (Return None, fold ?F [k..<Suc N] st)"
    if "N - k = m" and "1 \<le> k" and "k \<le> N" for m k st
    using that
  proof (induction m arbitrary: k st)
    case 0
    then have kN: "k = N" by simp
    have "getNotifications client username (int k) perPage st = Some (Return None, ?F k st)"
      using getNotifications_drain_page [of client st "int k" perPage "ntf k" "resp k" "subj k"
          "url k" "idn k" "repo k" "own k" "login k" "name k" "pr k" username]
        pages [of k _ "world st"] subjects [of k] resolves [of k] evaluates [of k] 0 last_page kN
      by simp
    then show ?case
      using kN by simp
  next
    case (Suc m)
    then have kN: "k < N" by simp
    have range: "[k..<Suc N] = k # [Suc k..<Suc N]"
      using kN by (simp add: upt_conv_Cons)
    have "getNotifications client username (int k) perPage st
        = getNotifications client username (int (Suc k)) perPage (?F k st)"
      using getNotifications_drain_page [of client st "int k" perPage "ntf k" "resp k" "subj k"
          "url k" "idn k" "repo k" "own k" "login k" "name k" "pr k" username]
        pages [of k _ "world st"] subjects [of k] resolves [of k] evaluates [of k] Suc.prems
        next_page [of k] kN
      by simp
    moreover have "N - Suc k = m" and "1 \<le> Suc k" and "Suc k \<le> N"
      using Suc.prems by simp_all
    from Suc.IH [OF this, of "?F k st"]
    have "getNotifications client username (int (Suc k)) perPage (?F k st)
        = Some (Return None, fold ?F [Suc k..<Suc N] (?F k st))" .
    ultimately show ?case
      unfolding range by simp
  qed
  from step [where k = 1 and m = "N - 1" and st = st] \<open>1 \<le> N\<close>
  show "getNotifications client username 1 perPage st = Some (Return None, fold ?F [1..<Suc N] st)"
    by (simp del: upt_Suc)
next
  show "\<exists>tr. calls (fold (\<lambda>k. drain_page client username perPage (int k) (login k) (name k)
                            (idn k) (pr k)) [1..<Suc N] st) = calls st @ tr
            \<and> pages_listed tr = map int [1..<Suc N]
            \<and> pulls_resolved tr = map (\<lambda>k. (login k, name k, idn k)) [1..<Suc N]
            \<and> ((\<forall>k \<in> set [1..<Suc N]. State (pr k) = Some ''closed'' \<and> Merged (pr k) = Some True
                   \<and> Head (pr k) = Some (head k) \<and> Ref (head k) = Some (branch k)
                   \<and> Repo (head k) = Some (hrepo k) \<and> Owner (hrepo k) = Some (howner k)
                   \<and> Login (howner k) = Some username \<and> Name (hrepo k) = Some (hname k)
                   \<and> branch k \<noteq> ''master'')
                 \<longrightarrow> refs_deleted tr =
                       map (\<lambda>k. (username, hname k,
                                 strings_Replace (''heads/'' @ branch k) ''#'' ''%23'')) [1..<Suc N])"
    by (rule fold_drain_page_trace)
qed

theorem getNotifications_drains_feed_witness:
  "\<exists>st' tr. getNotifications feed_client ''bot'' 1 20
        (example_state [(''bot'', ''proj'', ''heads/feature-x'')]) = Some (Return None, st')
     \<and> calls st' = tr
     \<and> pages_listed tr = [1, 2]
     \<and> pulls_resolved tr = [(''up'', ''proj'', 7), (''up'', ''proj'', 8)]
     \<and> refs_deleted tr = [(''bot'', ''proj'', ''heads/feature-x''), (''bot'', ''proj'', ''heads/fix%231'')]"
proof -
  let ?num = "\<lambda>k::nat. if k = 1 then ''7'' else ''8''"
  let ?ntf = "\<lambda>k. example_notification (?num k)"
  let ?resp = "\<lambda>k::nat. if k = 1 then \<lparr>NextPage = 2, LastPage = 2\<rparr> else \<lparr>NextPage = 0, LastPage = 0\<rparr>"
  let ?subj = "\<lambda>k. \<lparr>Type = Some ''PullRequest'',
                     URL = Some (''https://api.github.com/repos/up/proj/pulls/'' @ ?num k)\<rparr>"
  let ?url = "\<lambda>k. ''https://api.github.com/repos/up/proj/pulls/'' @ ?num k"
  let ?idn = "\<lambda>k::nat. if k = 1 then 7 else (8::int)"
  let ?repo = "\<lambda>k::nat. \<lparr>Owner = Some \<lparr>Login = Some ''up''\<rparr>, Name = Some ''proj'',
                           FullName = Some ''up/proj''\<rparr>"
  let ?own = "\<lambda>k::nat. \<lparr>Login = Some ''up''\<rparr>"
  let ?branch = "\<lambda>k::nat. if k = 1 then ''feature-x'' else ''fix#1''"
  let ?pr = "\<lambda>k::nat. example_pr ''bot'' ''proj'' (?branch k)"
  let ?hrepo = "\<lambda>k::nat. \<lparr>Owner = Some \<lparr>Login = Some ''bot''\<rparr>, Name = Some ''proj'',
                           FullName = Some ''bot/proj''\<rparr>"
  let ?head = "\<lambda>k::nat. \<lparr>Ref = Some (?branch k), Repo = Some (?hrepo k)\<rparr>"
  let ?howner = "\<lambda>k::nat. \<lparr>Login = Some ''bot''\<rparr>"
  let ?st = "example_state [(''bot'', ''proj'', ''heads/feature-x'')]"
  let ?F = "\<lambda>k. drain_page feed_client ''bot'' 20 (int k) ''up'' ''proj'' (?idn k) (?pr k)"
  have two: "k = 1 \<or> k = 2" if "1 \<le> k" and "k \<le> 2" for k :: nat
    using that by arith
  have pages: "fst (Activity_ListNotifications feed_client opt w) = Inr ([?ntf k], ?resp k)"
    if "1 \<le> k" and "k \<le> 2" and "Page opt = int k"
    for k and opt :: notification_list_options and w
    using two [OF that(1,2)] that(3) by (auto simp add: feed_client_def)
  have next_page: "NextPage (?resp k) = int (Suc k) \<and> LastPage (?resp k) \<noteq> int k"
    if "1 \<le> k" and "k < 2" for k
    using that by simp
  have last_page: "NextPage (?resp 2) = 0"
    by simp
  have subjects: "Subject (?ntf k) = Some (?subj k) \<and> Type (?subj k) = Some ''PullRequest''
      \<and> URL (?subj k) = Some (?url k)
      \<and> Atoi (last (strings_Split (?url k) ''/'')) = Inr (?idn k)
      \<and> Repository (?ntf k) = Some (?repo k) \<and> Owner (?repo k) = Some (?own k)
      \<and> Login (?own k) = Some ''up'' \<and> Name (?repo k) = Some ''proj''"
    if "1 \<le> k" and "k \<le> 2" for k
    using two [OF that] by (auto simp add: example_notification_def example_url_number)
  have resolves: "fst (PullRequests_Get feed_client ''up'' ''proj'' (?idn k) w) = Inr (?pr k)"
    if "1 \<le> k" and "k \<le> 2" for k w
    using two [OF that] by (auto simp add: feed_client_def example_client_def)
  have evaluates: "fst (closePR feed_client ''bot'' (?pr k) s) = Return None"
    if "1 \<le> k" and "k \<le> 2" for k s
    unfolding feed_client_def by (rule example_client_closePR)
  have pos: "(1::nat) \<le> 2"
    by simp
  have range: "[1..<Suc 2] = [1, 2]"
    by (simp add: upt_conv_Cons)
  have eligible: "\<forall>k \<in> set [1..<Suc 2]. State (?pr k) = Some ''closed'' \<and> Merged (?pr k) = Some True
      \<and> Head (?pr k) = Some (?head k) \<and> Ref (?head k) = Some (?branch k)
      \<and> Repo (?head k) = Some (?hrepo k) \<and> Owner (?hrepo k) = Some (?howner k)
      \<and> Login (?howner k) = Some ''bot'' \<and> Name (?hrepo k) = Some ''proj''
      \<and> ?branch k \<noteq> ''master''"
    unfolding range by (simp add: example_pr_def)
  from getNotifications_drains_feed [where N = 2 and client = feed_client and ntf = ?ntf
      and resp = ?resp and subj = ?subj and url = ?url and idn = ?idn and repo = ?repo
      and own = ?own and login = "\<lambda>k. ''up''" and name = "\<lambda>k. ''proj''" and pr = ?pr
      and username = "''bot''" and perPage = 20 and st = ?st
      and head = ?head and branch = ?branch and hrepo = ?hrepo and howner = ?howner
      and hname = "\<lambda>k. ''proj''",
      OF pages next_page last_page subjects resolves evaluates pos]
  obtain tr where run: "getNotifications feed_client ''bot'' 1 20 ?st
        = Some (Return None, fold ?F [1..<Suc 2] ?st)"
    and trace: "calls (fold ?F [1..<Suc 2] ?st) = calls ?st @ tr"
    and listed: "pages_listed tr = map int [1..<Suc 2]"
    and resolved: "pulls_resolved tr = map (\<lambda>k. (''up'', ''proj'', ?idn k)) [1..<Suc 2]"
    and deleted: "(\<forall>k \<in> set [1..<Suc 2]. State (?pr k) = Some ''closed'' \<and> Merged (?pr k) = Some True
      \<and> Head (?pr k) = Some (?head k) \<and> Ref (?head k) = Some (?branch k)
      \<and> Repo (?head k) = Some (?hrepo k) \<and> Owner (?hrepo k) = Some (?howner k)
      \<and> Login (?howner k) = Some ''bot'' \<and> Name (?hrepo k) = Some ''proj''
      \<and> ?branch k \<noteq> ''master'')
      \<longrightarrow> refs_deleted tr = map (\<lambda>k. (''bot'', ''proj'',
            strings_Replace (''heads/'' @ ?branch k) ''#'' ''%23'')) [1..<Suc 2]"
    by blast
  from trace have "calls (fold ?F [1..<Suc 2] ?st) = tr"
    by (simp add: example_state_def)
  moreover from listed have "pages_listed tr = [1, 2]"
    unfolding range by simp
  moreover from resolved have "pulls_resolved tr = [(''up'', ''proj'', 7), (''up'', ''proj'', 8)]"
    unfolding range by simp
  moreover from deleted eligible
  have "refs_deleted tr = [(''bot'', ''proj'', ''heads/feature-x''), (''bot'', ''proj'', ''heads/fix%231'')]"
    unfolding range by (simp add: strings_Replace_byte)
  ultimately show ?thesis
    using run by blast
qed




text \<open>
  Claim C6 says the first fetch is made with \<open>since\<close> equal to the startup time. On the
  first run (\<^verbatim>\<open>lastChecked\<close> zero, the clock at 1000) over a feed of two pages,
  \<^verbatim>\<open>lastChecked\<close> is set to 1000 before the first call, but the options of that call were
  built before and carry \<open>Since = 0\<close>; the call for the second page carries
  \<open>Since = 1000\<close>.
\<close>

theorem getNotifications_first_since:
  "getNotifications feed_client ''bot'' 1 20 (example_state [(''bot'', ''proj'', ''heads/feature-x'')])
     = Some (Return None,
        \<lparr>world = [], lastChecked = 1000,
         calls = [ListNotifications \<lparr>All = True, Since = 0, Page = 1, PerPage = 20\<rparr>,
                  PullRequestsGet ''up'' ''proj'' 7,
                  GitDeleteRef ''bot'' ''proj'' ''heads/feature-x'',
                  ListNotifications \<lparr>All = True, Since = 1000, Page = 2, PerPage = 20\<rparr>,
                  PullRequestsGet ''up'' ''proj'' 8,
                  GitDeleteRef ''bot'' ''proj'' ''heads/fix%231''],
         logs = [(InfoLevel, BranchNoLongerExists ''feature-x'' ''bot'' ''proj''),
                 (InfoLevel, BranchNoLongerExists ''fix#1'' ''bot'' ''proj'')]\<rparr>)"
  by code_simp


subsection \<open>The webhook receiver\<close>

text \<open>
  Claim C9, as amended. A body that cannot be read, or that does not decode, ends the
  process: a fatal log line and exit status 1, no response of its own. A decoded event
  without a pull request is skipped with an informational log line. A decoded event with a
  pull request and an action other than \<open>closed\<close> causes no client call; it is skipped with
  an informational log line provided the number of the pull request and the full name of
  the event's repository are present, which the log line reads. A decoded event with a pull
  request and the action \<open>closed\<close> is handed to \<^verbatim>\<open>closePR\<close>: the handler makes the calls
  \<^verbatim>\<open>closePR\<close> makes, and returns in the state \<^verbatim>\<open>closePR\<close> leaves when that returns nil.
\<close>

theorem buildHandler_dispatch:
  fixes client :: "'w env" and evt :: event and pr :: pull_request and repo :: repository
  shows "(body = Inl e \<longrightarrow>
            buildHandler client unmarshal username body st
              = (Exit 1, logrus FatalLevel FailedToReadBody st))
       \<and> (body = Inr b \<and> unmarshal b = Inl e \<longrightarrow>
            buildHandler client unmarshal username body st
              = (Exit 1, logrus FatalLevel FailedToReadBody st))
       \<and> (body = Inr b \<and> unmarshal b = Inr evt \<and> PullRequest evt = None \<longrightarrow>
            buildHandler client unmarshal username body st
              = (Return (), logrus InfoLevel (SkippingNonPR evt) st))
       \<and> (body = Inr b \<and> unmarshal b = Inr evt \<and> PullRequest evt = Some pr
            \<and> Action evt \<noteq> ''closed'' \<longrightarrow>
            calls (snd (buildHandler client unmarshal username body st)) = calls st
            \<and> world (snd (buildHandler client unmarshal username body st)) = world st)
       \<and> (body = Inr b \<and> unmarshal b = Inr evt \<and> PullRequest evt = Some pr
            \<and> Action evt \<noteq> ''closed'' \<and> Number pr = Some n
            \<and> evt_Repository evt = Some repo \<and> FullName repo = Some full \<longrightarrow>
            buildHandler client unmarshal username body st
              = (Return (), logrus InfoLevel (SkippingNotClosed n full (Action evt)) st))
       \<and> (body = Inr b \<and> unmarshal b = Inr evt \<and> PullRequest evt = Some pr
            \<and> Action evt = ''closed'' \<longrightarrow>
            calls (snd (buildHandler client unmarshal username body st))
              = calls (snd (closePR client username pr st))
            \<and> world (snd (buildHandler client unmarshal username body st))
              = world (snd (closePR client username pr st))
            \<and> (fst (closePR client username pr st) = Return None \<longrightarrow>
                 buildHandler client unmarshal username body st
                   = (Return (), snd (closePR client username pr st))))"
  by (auto simp add: buildHandler_def logrus_def split: option.splits prod.splits outcome.splits)

theorem buildHandler_dispatch_witness:
  "buildHandler example_client example_unmarshal ''bot'' (Inl ''unexpected EOF'') (example_state [])
     = (Exit 1, \<lparr>world = [], lastChecked = 0, calls = [], logs = [(FatalLevel, FailedToReadBody)]\<rparr>)
   \<and> buildHandler example_client example_unmarshal ''bot'' (Inr ''{'') (example_state [])
     = (Exit 1, \<lparr>world = [], lastChecked = 0, calls = [], logs = [(FatalLevel, FailedToReadBody)]\<rparr>)
   \<and> buildHandler example_client example_unmarshal ''bot'' (Inr ''push event'') (example_state [])
     = (Return (), \<lparr>world = [], lastChecked = 0, calls = [],
          logs = [(InfoLevel, SkippingNonPR ((example_event '''')\<lparr>PullRequest := None\<rparr>))]\<rparr>)
   \<and> buildHandler example_client example_unmarshal ''bot'' (Inr ''opened event'') (example_state [])
     = (Return (), \<lparr>world = [], lastChecked = 0, calls = [],
          logs = [(InfoLevel, SkippingNotClosed 42 ''up/proj'' ''opened'')]\<rparr>)
   \<and> buildHandler example_client example_unmarshal ''bot'' (Inr ''closed event'')
        (example_state [(''bot'', ''repo'', ''heads/feature-x'')])
     = (Return (), \<lparr>world = [], lastChecked = 0,
          calls = [GitDeleteRef ''bot'' ''repo'' ''heads/feature-x''],
          logs = [(InfoLevel, BranchNoLongerExists ''feature-x'' ''bot'' ''repo'')]\<rparr>)"
  using buildHandler_dispatch [where body = "Inl ''unexpected EOF''" and e = "''unexpected EOF''"
      and client = example_client and unmarshal = example_unmarshal and username = "''bot''"
      and st = "example_state []"]
    buildHandler_dispatch [where body = "Inr ''{''" and b = "''{''" and e = "''invalid character''"
      and client = example_client and unmarshal = example_unmarshal and username = "''bot''"
      and st = "example_state []"]
    buildHandler_dispatch [where body = "Inr ''push event''" and b = "''push event''"
      and evt = "(example_event '''')\<lparr>PullRequest := None\<rparr>"
      and client = example_client and unmarshal = example_unmarshal and username = "''bot''"
      and st = "example_state []"]
    buildHandler_dispatch [where body = "Inr ''opened event''" and b = "''opened event''"
      and evt = "example_event ''opened''" and pr = "example_pr ''bot'' ''repo'' ''feature-x''"
      and n = 42 and full = "''up/proj''"
      and repo = "\<lparr>Owner = Some \<lparr>Login = Some ''up''\<rparr>, Name = Some ''proj'', FullName = Some ''up/proj''\<rparr>"
      and client = example_client and unmarshal = example_unmarshal and username = "''bot''"
      and st = "example_state []"]
    buildHandler_dispatch [where body = "Inr ''closed event''" and b = "''closed event''"
      and evt = "example_event ''closed''" and pr = "example_pr ''bot'' ''repo'' ''feature-x''"
      and client = example_client and unmarshal = example_unmarshal and username = "''bot''"
      and st = "example_state [(''bot'', ''repo'', ''heads/feature-x'')]"]
  by (simp add: example_unmarshal_def example_event_def example_pr_def example_state_def logrus_def
      example_client_def closePR_def strings_Replace_byte)

text \<open>
  Claim C9 as stated has every decoded event that is not handed on skipped with an
  informational log line. An event with a pull request, the action \<open>opened\<close> and no
  repository makes the handler panic on \<^verbatim>\<open>*evt.Repository.FullName\<close>, with nothing logged.
\<close>

theorem buildHandler_skip_counterexample:
  "example_unmarshal ''bare opened event'' = Inr example_bare_event
   \<and> PullRequest example_bare_event \<noteq> None \<and> Action example_bare_event \<noteq> ''closed''
   \<and> buildHandler example_client example_unmarshal ''bot'' (Inr ''bare opened event'') (example_state [])
       = (Panic ''evt.Repository'', \<lparr>world = [], lastChecked = 0, calls = [], logs = []\<rparr>)"
  by (simp add: buildHandler_def example_unmarshal_def example_bare_event_def example_state_def)


end
